theory Spec2Isabelle
  imports Main "HOL-Library.Sublist"
begin

section \<open>The keycloakify command-line dispatcher (src/bin/main.ts)\<close>

text \<open>
  The module registers a fixed catalog of commands with the \<^emph>\<open>termost\<close> framework, keeps
  the array \<open>optionsKeys\<close> of every flag name registered so far, guards every task with
  the function \<open>skip\<close>, validates the Keycloak version of \<open>start-keycloak\<close>, and, at the end
  of the module body, re-spawns itself with the \<open>build\<close> command when no command was given.

  What the module does to the outside world (console output, module loading, calls of the
  delegated commands, the child process) is recorded as a list of events in program order;
  how a computation ends is a value of type \<open>completion\<close>: it returns, it throws, or
  \<open>process.exit\<close> stops the process with a code.

  A JavaScript string is the list of its code units, so \<open>.length\<close> is \<open>length\<close>; the
  characters of the model cover the code units below 256.
\<close>

subsection \<open>Values\<close>

text \<open>A raw option value of the parsed command line (\<open>Record<string, unknown>\<close>); the
  type \<open>'n\<close> stands for JavaScript numbers.\<close>

datatype 'n js_value = JSString string | JSNumber 'n | JSBoolean bool

text \<open>\<open>keycloakVersion: string | number | undefined\<close>; \<open>undefined\<close> is \<open>None\<close>.\<close>

datatype 'n keycloak_version = VersionString string | VersionNumber 'n

text \<open>The context termost hands to a handler: the declared option keys with the supplied
  value or the default (\<open>undefined\<close>).\<close>

record 'n handler_context =
  projectDirPath :: "string option"
  port :: "'n option"
  keycloakVersion :: "'n keycloak_version option"
  realmJsonFilePath :: "string option"
  file_arg :: "string option"

text \<open>The \<open>cliCommandOptions\<close> a delegated command receives beside the build context.\<close>

datatype 'n cli_command_options =
    NoCliCommandOptions
  | StartKeycloakOptions "'n keycloak_version option" "'n option" "string option"
  | EjectFileOptions "string option"

subsection \<open>Effects\<close>

text \<open>What is printed: a plain string, a string wrapped by \<open>chalk.red\<close>, or an error value
  given to \<open>console.error\<close> as it is.\<close>

datatype 'e printed = Plain string | Red string | ErrorValue 'e

datatype stdio = Pipe | Ignore | Inherit

datatype ('n, 'e, 'bc) event =
    ConsoleLog "'e printed"
  | ConsoleError "'e printed"
  | Import string
  | SemVerParse string
  | GetBuildContext "string option"
  | Command string 'bc "'n cli_command_options"
  | SpawnSync string "string list" stdio

datatype ('a, 'e) completion = Returned 'a | Threw 'e | Exited int

text \<open>Sequencing: the second computation runs only when the first one returned.\<close>

definition and_then ::
  "'ev list \<times> ('a, 'e) completion \<Rightarrow> ('a \<Rightarrow> 'ev list \<times> ('b, 'e) completion)
     \<Rightarrow> 'ev list \<times> ('b, 'e) completion" where
  "and_then m f =
     (case m of
        (evs, Returned a) \<Rightarrow> (case f a of (evs', r) \<Rightarrow> (evs @ evs', r))
      | (evs, Threw e) \<Rightarrow> (evs, Threw e)
      | (evs, Exited c) \<Rightarrow> (evs, Exited c))"

subsection \<open>The SemVer validator\<close>

text \<open>
  Modelled from the spec: \<open>SemVer.parse\<close> of \<open>./tools/SemVer\<close>, which is not among the
  sources. The spec: \<open>parse(input: string) -> ParsedVersion\<close> fails when the input does
  not match the semantic-versioning grammar (major.minor.patch, optional pre-release/build
  metadata). \<open>None\<close> is the failure. The dispatcher takes the parser as a parameter
  (\<open>env_SemVer_parse\<close> below); this definition only supplies a concrete parser where a
  statement is evaluated at a concrete input.
\<close>

record ParsedVersion =
  major :: nat
  minor :: nat
  patch :: nat

definition is_digit :: "char \<Rightarrow> bool" where
  "is_digit c = (c \<in> set ''0123456789'')"

definition numeric :: "string \<Rightarrow> bool" where
  "numeric s = (s \<noteq> [] \<and> list_all is_digit s)"

definition parseInt :: "string \<Rightarrow> nat" where
  "parseInt s = foldl (\<lambda>a c. 10 * a + (of_char c - 48)) 0 s"

fun split_on :: "char \<Rightarrow> string \<Rightarrow> string list" where
  "split_on d [] = [[]]"
| "split_on d (c # cs) =
     (if c = d then [] # split_on d cs
      else (case split_on d cs of
              w # ws \<Rightarrow> (c # w) # ws
            | [] \<Rightarrow> [[c]]))"

definition SemVer_parse :: "string \<Rightarrow> ParsedVersion option" where
  "SemVer_parse input =
     (case split_on (CHR ''.'') (takeWhile (\<lambda>c. c \<noteq> CHR ''-'' \<and> c \<noteq> CHR ''+'') input) of
        [a, b, c] \<Rightarrow>
          (if numeric a \<and> numeric b \<and> numeric c
           then Some \<lparr>major = parseInt a, minor = parseInt b, patch = parseInt c\<rparr>
           else None)
      | _ \<Rightarrow> None)"

subsection \<open>The environment\<close>

text \<open>
  The collaborators the module calls and does not define: the SemVer parser (\<open>None\<close>: it
  throws), the dynamic \<open>import\<close> of a command's module (\<open>Some e\<close>: the promise rejects
  with \<open>e\<close>), \<open>getBuildContext\<close> (\<open>Inl e\<close>: it throws \<open>e\<close>), the delegated \<open>command\<close> of a
  module, the conversion of a number inside a template literal,
  \<open>child_process.spawnSync\<close>, which answers the child's status (\<open>None\<close>: \<open>null\<close>), and
  the test \<open>instanceof Error\<close> on a thrown value (JavaScript throws values of any kind).
\<close>

record ('n, 'e, 'bc) env =
  env_SemVer_parse :: "string \<Rightarrow> ParsedVersion option"
  env_import :: "string \<Rightarrow> 'e option"
  env_getBuildContext :: "string option \<Rightarrow> 'e + 'bc"
  env_command :: "string \<Rightarrow> 'bc \<Rightarrow> 'n cli_command_options \<Rightarrow> (unit, 'e) completion"
  env_toString :: "'n \<Rightarrow> string"
  env_spawnSync :: "string \<Rightarrow> string list \<Rightarrow> stdio \<Rightarrow> int option"
  env_instanceof_Error :: "'e \<Rightarrow> bool"

definition import_module ::
  "('n, 'e, 'bc) env \<Rightarrow> string \<Rightarrow> ('n, 'e, 'bc) event list \<times> (unit, 'e) completion" where
  "import_module E m =
     ([Import m], (case env_import E m of None \<Rightarrow> Returned () | Some e \<Rightarrow> Threw e))"

definition getBuildContext ::
  "('n, 'e, 'bc) env \<Rightarrow> string option \<Rightarrow> ('n, 'e, 'bc) event list \<times> ('bc, 'e) completion" where
  "getBuildContext E p =
     ([GetBuildContext p],
      (case env_getBuildContext E p of Inl e \<Rightarrow> Threw e | Inr bc \<Rightarrow> Returned bc))"

definition command ::
  "('n, 'e, 'bc) env \<Rightarrow> string \<Rightarrow> 'bc \<Rightarrow> 'n cli_command_options
     \<Rightarrow> ('n, 'e, 'bc) event list \<times> (unit, 'e) completion" where
  "command E m bc opts = ([Command m bc opts], env_command E m bc opts)"

subsection \<open>The Option Registry\<close>

text \<open>\<open>Array.prototype.push\<close> appends its arguments; \<open>Array.prototype.includes\<close> tests
  membership.\<close>

definition push :: "'a list \<Rightarrow> 'a list \<Rightarrow> 'a list" where
  "push xs items = xs @ items"

definition includes_key :: "'a list \<Rightarrow> 'a \<Rightarrow> bool" where
  "includes_key xs x = (x \<in> set xs)"

text \<open>An option as it is declared: its key and its flag names (\<open>{long, short}\<close> or one
  name). The immediately-invoked function that computes \<open>name\<close> pushes the flag names onto
  \<open>optionsKeys\<close> while the option is declared.\<close>

record option_def =
  key :: string
  name :: "string list"

datatype command_id =
    Build | StartKeycloak | EjectPage | AddStory | InitializeEmailTheme
  | InitializeAccountTheme | CopyKeycloakResourcesToPublic | UpdateKcGen | Postinstall
  | EjectFile

definition catalog :: "command_id list" where
  "catalog = [Build, StartKeycloak, EjectPage, AddStory, InitializeEmailTheme,
     InitializeAccountTheme, CopyKeycloakResourcesToPublic, UpdateKcGen, Postinstall,
     EjectFile]"

fun command_name :: "command_id \<Rightarrow> string" where
  "command_name Build = ''build''"
| "command_name StartKeycloak = ''start-keycloak''"
| "command_name EjectPage = ''eject-page''"
| "command_name AddStory = ''add-story''"
| "command_name InitializeEmailTheme = ''initialize-email-theme''"
| "command_name InitializeAccountTheme = ''initialize-account-theme''"
| "command_name CopyKeycloakResourcesToPublic = ''copy-keycloak-resources-to-public''"
| "command_name UpdateKcGen = ''update-kc-gen''"
| "command_name Postinstall = ''postinstall''"
| "command_name EjectFile = ''eject-file''"

text \<open>The module each handler imports once its command is selected.\<close>

fun command_module :: "command_id \<Rightarrow> string" where
  "command_module Build = ''./keycloakify''"
| "command_module c = ''./'' @ command_name c"

text \<open>The option declared on the program itself, for every command.\<close>

definition program_options :: "option_def list" where
  "program_options = [\<lparr>key = ''projectDirPath'', name = [''project'', ''p'']\<rparr>]"

text \<open>The options a command declares itself.\<close>

fun command_options :: "command_id \<Rightarrow> option_def list" where
  "command_options StartKeycloak =
     [\<lparr>key = ''port'', name = [''port'']\<rparr>,
      \<lparr>key = ''keycloakVersion'', name = [''keycloak-version'']\<rparr>,
      \<lparr>key = ''realmJsonFilePath'', name = [''import'']\<rparr>]"
| "command_options EjectFile = [\<lparr>key = ''file'', name = [''file'']\<rparr>]"
| "command_options c = []"

definition register_option :: "option_def \<Rightarrow> string list \<Rightarrow> string list" where
  "register_option od keys = push keys (name od)"

definition register_command :: "command_id \<Rightarrow> string list \<Rightarrow> string list" where
  "register_command c keys = fold register_option (command_options c) keys"

text \<open>\<open>optionsKeys\<close> once the module body has run: it starts empty, the program's option
  is declared first, then the commands in the order of the source.\<close>

definition optionsKeys :: "string list" where
  "optionsKeys = fold register_command catalog (fold register_option program_options [])"

subsection \<open>The skip predicate\<close>

text \<open>
  \<open>argv.options\<close> is an association list in the iteration order of \<open>Object.keys\<close>, so
  \<open>Object.keys\<close> is \<open>map fst\<close>. The function reads the array \<open>optionsKeys\<close>, here the
  argument \<open>keys\<close>; the second component of the result is the array as the call leaves
  it.
\<close>

definition skip ::
  "string list \<Rightarrow> (string \<times> 'v) list
     \<Rightarrow> (('n, 'e, 'bc) event list \<times> (bool, 'e) completion) \<times> string list" where
  "skip keys argv_options =
     (case find (\<lambda>key. \<not> includes_key keys key) (map fst argv_options) of
        Some unrecognizedOptionKey \<Rightarrow>
          (([ConsoleError (Plain (''keycloakify: Unrecognized option: ''
                @ (if length unrecognizedOptionKey = 1 then ''-'' else ''--'')
                @ unrecognizedOptionKey))],
            Exited 1), keys)
      | None \<Rightarrow> (([], Returned False), keys))"

subsection \<open>The handlers\<close>

text \<open>\<open>[a, b].join(" ")\<close>.\<close>

fun join :: "string \<Rightarrow> string list \<Rightarrow> string" where
  "join sep [] = []"
| "join sep [x] = x"
| "join sep (x # y # ys) = x @ sep @ join sep (y # ys)"

text \<open>A value inside a template literal.\<close>

definition template :: "('n, 'e, 'bc) env \<Rightarrow> 'n keycloak_version \<Rightarrow> string" where
  "template E v = (case v of VersionString s \<Rightarrow> s | VersionNumber n \<Rightarrow> env_toString E n)"

text \<open>
  The immediately-invoked function that computes \<open>isValidVersion\<close>: it returns \<open>false\<close>
  for a number and when \<open>SemVer.parse\<close> throws, and ends with a bare \<open>return;\<close> otherwise,
  whose value is \<open>undefined\<close> (\<open>None\<close>).
\<close>

definition isValidVersion ::
  "('n, 'e, 'bc) env \<Rightarrow> 'n keycloak_version \<Rightarrow> ('n, 'e, 'bc) event list \<times> bool option" where
  "isValidVersion E v =
     (case v of
        VersionNumber n \<Rightarrow> ([], Some False)
      | VersionString s \<Rightarrow>
          (case env_SemVer_parse E s of
             None \<Rightarrow> ([SemVerParse s], Some False)
           | Some parsed \<Rightarrow> ([SemVerParse s], None)))"

text \<open>The truth value of \<open>if (isValidVersion)\<close>: \<open>undefined\<close> and \<open>false\<close> are falsy.\<close>

definition truthy :: "bool option \<Rightarrow> bool" where
  "truthy v = (case v of None \<Rightarrow> False | Some b \<Rightarrow> b)"

text \<open>The labelled block \<open>validate_keycloak_version\<close>.\<close>

definition validate_keycloak_version ::
  "('n, 'e, 'bc) env \<Rightarrow> 'n keycloak_version option
     \<Rightarrow> ('n, 'e, 'bc) event list \<times> (unit, 'e) completion" where
  "validate_keycloak_version E kv =
     (case kv of
        None \<Rightarrow> ([], Returned ())
      | Some v \<Rightarrow>
          (case isValidVersion E v of
             (evs, valid) \<Rightarrow>
               if truthy valid then (evs, Returned ())
               else (evs @ [ConsoleLog (Red (join '' ''
                        [''Invalid Keycloak version: '' @ template E v,
                         ''It should be a valid semver version example: 26.0.4'']))],
                     Exited 1)))"

text \<open>
  The handler of \<open>start-keycloak\<close>. \<open>assert(is<string | undefined>(keycloakVersion))\<close>
  only narrows the static type (tsafe's \<open>assert\<close> returns when its argument comes from
  \<open>is\<close>), so it is no step of the model.
\<close>

definition start_keycloak_handler ::
  "('n, 'e, 'bc) env \<Rightarrow> 'n handler_context \<Rightarrow> ('n, 'e, 'bc) event list \<times> (unit, 'e) completion" where
  "start_keycloak_handler E c =
     and_then (import_module E ''./start-keycloak'') (\<lambda>_.
     and_then (validate_keycloak_version E (keycloakVersion c)) (\<lambda>_.
     and_then (getBuildContext E (projectDirPath c)) (\<lambda>buildContext.
       command E ''./start-keycloak'' buildContext
         (StartKeycloakOptions (keycloakVersion c) (port c) (realmJsonFilePath c)))))"

definition eject_file_handler ::
  "('n, 'e, 'bc) env \<Rightarrow> 'n handler_context \<Rightarrow> ('n, 'e, 'bc) event list \<times> (unit, 'e) completion" where
  "eject_file_handler E c =
     and_then (import_module E ''./eject-file'') (\<lambda>_.
     and_then (getBuildContext E (projectDirPath c)) (\<lambda>buildContext.
       command E ''./eject-file'' buildContext (EjectFileOptions (file_arg c))))"

text \<open>The eight other handlers differ in the module they import only.\<close>

definition plain_handler ::
  "('n, 'e, 'bc) env \<Rightarrow> string \<Rightarrow> 'n handler_context
     \<Rightarrow> ('n, 'e, 'bc) event list \<times> (unit, 'e) completion" where
  "plain_handler E m c =
     and_then (import_module E m) (\<lambda>_.
     and_then (getBuildContext E (projectDirPath c)) (\<lambda>buildContext.
       command E m buildContext NoCliCommandOptions))"

fun handler ::
  "('n, 'e, 'bc) env \<Rightarrow> command_id \<Rightarrow> 'n handler_context
     \<Rightarrow> ('n, 'e, 'bc) event list \<times> (unit, 'e) completion" where
  "handler E StartKeycloak c = start_keycloak_handler E c"
| "handler E EjectFile c = eject_file_handler E c"
| "handler E cmd c = plain_handler E (command_module cmd) c"

subsection \<open>Dispatch\<close>

text \<open>What termost's parser made of the command line: the selected command, the raw
  options bag and the context of the handler.\<close>

record 'n invocation =
  selected :: command_id
  options :: "(string \<times> 'n js_value) list"
  ctx :: "'n handler_context"

text \<open>
  A task \<open>{skip, handler}\<close> as termost runs it: \<open>skip\<close> is called first, a true answer
  skips the handler, any other answer runs it.
\<close>

definition run_task ::
  "('n, 'e, 'bc) env \<Rightarrow> string list \<Rightarrow> 'n invocation
     \<Rightarrow> (('n, 'e, 'bc) event list \<times> (unit, 'e) completion) \<times> string list" where
  "run_task E keys call =
     (case skip keys (options call) of
        ((evs, Returned skipped), keys') \<Rightarrow>
          (if skipped then ((evs, Returned ()), keys')
           else (case handler E (selected call) (ctx call) of
                   (evs', r) \<Rightarrow> ((evs @ evs', r), keys')))
      | ((evs, Threw e), keys') \<Rightarrow> ((evs, Threw e), keys')
      | ((evs, Exited code), keys') \<Rightarrow> ((evs, Exited code), keys'))"

text \<open>The program's \<open>onException\<close>: \<open>console.error(error); process.exit(1)\<close>.\<close>

definition onException :: "'e \<Rightarrow> ('n, 'e, 'bc) event list \<times> (unit, 'e) completion" where
  "onException error = ([ConsoleError (ErrorValue error)], Exited 1)"

text \<open>
  The selected task as termost ends it. The handlers are asynchronous, so what a handler
  throws is a rejected promise; termost passes the reason to the program's \<open>onException\<close>
  only when it is an instance of \<open>Error\<close>, and ends the process with code 1 in either
  case. A reason that is no \<open>Error\<close> is not logged.
\<close>

definition dispatch ::
  "('n, 'e, 'bc) env \<Rightarrow> string list \<Rightarrow> 'n invocation
     \<Rightarrow> (('n, 'e, 'bc) event list \<times> (unit, 'e) completion) \<times> string list" where
  "dispatch E keys call =
     (case run_task E keys call of
        ((evs, Threw reason), keys') \<Rightarrow>
          (if env_instanceof_Error E reason
           then (case onException reason of (evs', r) \<Rightarrow> ((evs @ evs', r), keys'))
           else ((evs, Exited 1), keys'))
      | ((evs, Returned u), keys') \<Rightarrow> ((evs, Returned u), keys')
      | ((evs, Exited code), keys') \<Rightarrow> ((evs, Exited code), keys'))"

subsection \<open>The fallback router\<close>

definition startsWith :: "string \<Rightarrow> string \<Rightarrow> bool" where
  "startsWith s p = (take (length p) s = p)"

text \<open>The condition of the last block of the module, on \<open>rest\<close>.\<close>

definition fallback_condition :: "string list \<Rightarrow> bool" where
  "fallback_condition rest =
     (case rest of
        [] \<Rightarrow> True
      | rest0 # _ \<Rightarrow> startsWith rest0 ''-'' \<and> rest0 \<noteq> ''--help'' \<and> rest0 \<noteq> ''-h'')"

text \<open>The body of that block: \<open>spawnSync\<close>, then \<open>process.exit(status ?? 1)\<close>.\<close>

definition fallback ::
  "('n, 'e, 'bc) env \<Rightarrow> string list \<Rightarrow> ('n, 'e, 'bc) event list \<times> (unit, 'e) completion" where
  "fallback E rest =
     (let args = [''keycloakify'', ''build''] @ rest;
          status = env_spawnSync E ''npx'' args Inherit
      in ([SpawnSync ''npx'' args Inherit],
          Exited (case status of None \<Rightarrow> 1 | Some s \<Rightarrow> s)))"

text \<open>
  The option keys termost handles itself: when the options bag of the selected command
  holds \<open>help\<close>, \<open>h\<close>, \<open>version\<close> or \<open>v\<close>, termost prints the help text or the version
  and runs no task, so \<open>skip\<close> is not called and the process ends with code 0. No command
  registers these keys, and they are not in \<open>optionsKeys\<close>.
\<close>

definition termost_keys :: "string list" where
  "termost_keys = [''help'', ''h'', ''version'', ''v'']"

definition help_or_version :: "(string \<times> 'v) list \<Rightarrow> bool" where
  "help_or_version argv_options =
     list_ex (\<lambda>key. includes_key termost_keys key) (map fst argv_options)"

text \<open>
  One run of the module on \<open>process.argv\<close>. The module body registers the catalog and
  then decides on the fallback; termost dispatches afterwards. \<open>call\<close> is what termost's
  parser selected, \<open>None\<close> when it selected no command. The events list what this module
  does; what termost prints itself (help, version, its own errors) is not among them. A
  run that returns ends the process with code 0.
\<close>

definition main ::
  "('n, 'e, 'bc) env \<Rightarrow> string list \<Rightarrow> 'n invocation option
     \<Rightarrow> (('n, 'e, 'bc) event list \<times> (unit, 'e) completion) \<times> string list" where
  "main E argv call =
     (let rest = drop 2 argv in
      if fallback_condition rest then (fallback E rest, optionsKeys)
      else (case call of
              None \<Rightarrow> (([], Returned ()), optionsKeys)
            | Some i \<Rightarrow>
                if help_or_version (options i) then (([], Returned ()), optionsKeys)
                else dispatch E optionsKeys i))"

subsection \<open>Auxiliary definitions of the statements\<close>


text \<open>
  A concrete environment for evaluating statements: numbers are naturals printed in
  decimal, a thrown value is an \<open>Error\<close> with its message or a string, build contexts
  are strings, the parser is the modelled \<open>SemVer_parse\<close>, every module loads, every
  command returns, and the child process ends with status 0.
\<close>

datatype thrown_value = ErrorObject string | StringValue string

fun decimal :: "nat \<Rightarrow> string" where
  "decimal n =
     (if n < 10 then [char_of (48 + n)]
      else decimal (n div 10) @ [char_of (48 + n mod 10)])"

definition sample_env :: "(nat, thrown_value, string) env" where
  "sample_env =
     \<lparr>env_SemVer_parse = SemVer_parse,
      env_import = (\<lambda>m. None),
      env_getBuildContext = (\<lambda>p. Inr (case p of None \<Rightarrow> ''.'' | Some d \<Rightarrow> d)),
      env_command = (\<lambda>m bc opts. Returned ()),
      env_toString = decimal,
      env_spawnSync = (\<lambda>p args io. Some 0),
      env_instanceof_Error = (\<lambda>e. case e of ErrorObject m \<Rightarrow> True | StringValue t \<Rightarrow> False)\<rparr>"

definition sample_context :: "nat keycloak_version option \<Rightarrow> nat handler_context" where
  "sample_context kv =
     \<lparr>projectDirPath = None, port = None, keycloakVersion = kv,
      realmJsonFilePath = None, file_arg = None\<rparr>"

definition sample_call ::
  "command_id \<Rightarrow> string list \<Rightarrow> nat keycloak_version option \<Rightarrow> nat invocation" where
  "sample_call c flags kv =
     \<lparr>selected = c, options = map (\<lambda>f. (f, JSBoolean True)) flags, ctx = sample_context kv\<rparr>"

section \<open>Properties\<close>

declare decimal.simps [simp del]

subsection \<open>Helper lemmas\<close>

lemma optionsKeys_eq:
  "optionsKeys = [''project'', ''p'', ''port'', ''keycloak-version'', ''import'', ''file'']"
  by (simp add: optionsKeys_def catalog_def program_options_def register_command_def
      register_option_def push_def)

lemma find_first:
  "set pre \<subseteq> {x. \<not> P x} \<Longrightarrow> P k \<Longrightarrow> find P (pre @ k # post) = Some k"
  by (induction pre) auto

lemma skip_recognized:
  assumes "set (map fst argv_options) \<subseteq> set keys"
  shows "skip keys argv_options = (([], Returned False), keys)"
proof -
  from assms have "find (\<lambda>key. \<not> includes_key keys key) (map fst argv_options) = None"
    by (auto simp add: find_None_iff includes_key_def)
  then show ?thesis
    by (simp add: skip_def)
qed

lemma skip_first_unrecognized:
  assumes "map fst argv_options = recognized @ k # others"
    and "set recognized \<subseteq> set keys" and "k \<notin> set keys"
  shows "skip keys argv_options =
           (([ConsoleError (Plain (''keycloakify: Unrecognized option: ''
                @ (if length k = 1 then ''-'' else ''--'') @ k))], Exited 1), keys)"
proof -
  from assms have "find (\<lambda>key. \<not> includes_key keys key) (map fst argv_options) = Some k"
    by (simp add: find_first includes_key_def subset_iff)
  then show ?thesis
    by (simp add: skip_def)
qed

lemma first_unrecognized_exists:
  assumes "\<not> set ks \<subseteq> set keys"
  shows "\<exists>recognized k others. ks = recognized @ k # others
           \<and> set recognized \<subseteq> set keys \<and> k \<notin> set keys"
proof -
  from assms have "\<exists>x \<in> set ks. x \<notin> set keys" by auto
  from split_list_first_prop [OF this] obtain ys x zs
    where "ks = ys @ x # zs" "x \<notin> set keys" "\<forall>y \<in> set ys. \<not> y \<notin> set keys"
    by blast
  then have "ks = ys @ x # zs \<and> set ys \<subseteq> set keys \<and> x \<notin> set keys"
    by auto
  then show ?thesis by blast
qed

lemma run_task_recognized:
  assumes "set (map fst (options call)) \<subseteq> set keys"
  shows "run_task E keys call = (handler E (selected call) (ctx call), keys)"
  by (simp add: run_task_def skip_recognized [OF assms] split: prod.split)

lemma run_task_unrecognized:
  assumes "\<not> set (map fst (options call)) \<subseteq> set keys"
  shows "\<exists>k. k \<in> set (map fst (options call)) \<and> k \<notin> set keys
           \<and> run_task E keys call =
               (([ConsoleError (Plain (''keycloakify: Unrecognized option: ''
                    @ (if length k = 1 then ''-'' else ''--'') @ k))], Exited 1), keys)"
proof -
  from first_unrecognized_exists [OF assms] obtain recognized k others
    where h: "map fst (options call) = recognized @ k # others"
      "set recognized \<subseteq> set keys" "k \<notin> set keys"
    by blast
  from h(1) have "k \<in> set (map fst (options call))" by simp
  moreover have "run_task E keys call =
               (([ConsoleError (Plain (''keycloakify: Unrecognized option: ''
                    @ (if length k = 1 then ''-'' else ''--'') @ k))], Exited 1), keys)"
    by (simp add: run_task_def skip_first_unrecognized [OF h])
  ultimately show ?thesis using h(3) by blast
qed

lemma skip_keys: "snd (skip keys argv_options) = keys"
  by (simp add: skip_def split: option.split)

lemma run_task_keys: "snd (run_task E keys call) = keys"
  by (simp add: run_task_def skip_def split: option.split prod.split completion.split)

lemma dispatch_keys: "snd (dispatch E keys call) = keys"
  using run_task_keys [of E keys call]
  by (auto simp add: dispatch_def onException_def split: prod.split completion.split)


lemma and_then_Returned:
  "and_then (evs, Returned a) f = (evs @ fst (f a), snd (f a))"
  by (simp add: and_then_def split: prod.split)

lemma and_then_Threw: "and_then (evs, Threw e) f = (evs, Threw e)"
  by (simp add: and_then_def)

lemma and_then_Exited: "and_then (evs, Exited code) f = (evs, Exited code)"
  by (simp add: and_then_def)

lemmas and_then_simps = and_then_Returned and_then_Threw and_then_Exited

lemma and_then_events:
  assumes "x \<in> set (fst (and_then m f))"
  shows "x \<in> set (fst m) \<or> (\<exists>a. x \<in> set (fst (f a)))"
proof -
  obtain evs r where m: "m = (evs, r)" by (cases m)
  show ?thesis
  proof (cases r)
    case (Returned a)
    with assms m have "x \<in> set evs \<or> x \<in> set (fst (f a))"
      by (simp add: and_then_Returned)
    with m show ?thesis by auto
  next
    case (Threw e)
    with assms m show ?thesis by (simp add: and_then_Threw)
  next
    case (Exited code)
    with assms m show ?thesis by (simp add: and_then_Exited)
  qed
qed

lemma validate_undefined: "validate_keycloak_version E None = ([], Returned ())"
  by (simp add: validate_keycloak_version_def)

lemma validate_defined:
  "validate_keycloak_version E (Some v) =
     ((case v of VersionNumber n \<Rightarrow> [] | VersionString s \<Rightarrow> [SemVerParse s])
        @ [ConsoleLog (Red (''Invalid Keycloak version: '' @ template E v
              @ '' It should be a valid semver version example: 26.0.4''))],
      Exited 1)"
  by (simp add: validate_keycloak_version_def isValidVersion_def truthy_def
      split: keycloak_version.split option.split)

lemma validate_events:
  "x \<in> set (fst (validate_keycloak_version E kv)) \<Longrightarrow>
     (\<exists>s. x = SemVerParse s) \<or> (\<exists>t. x = ConsoleLog (Red t))"
  by (cases kv) (auto simp add: validate_undefined validate_defined split: keycloak_version.splits)

lemma plain_handler_events:
  "x \<in> set (fst (plain_handler E m c)) \<Longrightarrow>
     x = Import m \<or> x = GetBuildContext (projectDirPath c)
     \<or> (\<exists>bc. x = Command m bc NoCliCommandOptions)"
  unfolding plain_handler_def
  by (auto dest!: and_then_events simp add: import_module_def getBuildContext_def command_def)

lemma eject_file_handler_events:
  "x \<in> set (fst (eject_file_handler E c)) \<Longrightarrow>
     x = Import ''./eject-file'' \<or> x = GetBuildContext (projectDirPath c)
     \<or> (\<exists>bc. x = Command ''./eject-file'' bc (EjectFileOptions (file_arg c)))"
  unfolding eject_file_handler_def
  by (auto dest!: and_then_events simp add: import_module_def getBuildContext_def command_def)

lemma start_keycloak_handler_events:
  "x \<in> set (fst (start_keycloak_handler E c)) \<Longrightarrow>
     x = Import ''./start-keycloak'' \<or> (\<exists>s. x = SemVerParse s)
     \<or> (\<exists>t. x = ConsoleLog (Red t))
     \<or> x = GetBuildContext (projectDirPath c)
     \<or> (\<exists>bc. x = Command ''./start-keycloak'' bc
            (StartKeycloakOptions (keycloakVersion c) (port c) (realmJsonFilePath c)))"
  unfolding start_keycloak_handler_def
  by (auto dest!: and_then_events validate_events
      simp add: import_module_def getBuildContext_def command_def)

lemma handler_no_spawn: "SpawnSync p args io \<notin> set (fst (handler E cmd c))"
  by (cases cmd)
     (auto dest: plain_handler_events eject_file_handler_events start_keycloak_handler_events)

lemma run_task_no_spawn: "SpawnSync p args io \<notin> set (fst (fst (run_task E keys call)))"
  using handler_no_spawn [of p args io E "selected call" "ctx call"]
  by (auto simp add: run_task_def skip_def split: option.splits prod.splits)

lemma dispatch_no_spawn: "SpawnSync p args io \<notin> set (fst (fst (dispatch E keys call)))"
  using run_task_no_spawn [of p args io E keys call]
  by (auto simp add: dispatch_def onException_def split: prod.splits completion.splits)

lemma startsWith_prefix: "startsWith s p \<longleftrightarrow> prefix p s"
  by (auto simp add: startsWith_def prefix_def) (metis append_take_drop_id)

lemma start_keycloak_defined:
  assumes "keycloakVersion c = Some v"
  shows "start_keycloak_handler E c =
           (case env_import E ''./start-keycloak'' of
              Some e \<Rightarrow> ([Import ''./start-keycloak''], Threw e)
            | None \<Rightarrow>
                (Import ''./start-keycloak''
                   # (case v of VersionNumber n \<Rightarrow> [] | VersionString s \<Rightarrow> [SemVerParse s])
                   @ [ConsoleLog (Red (''Invalid Keycloak version: '' @ template E v
                        @ '' It should be a valid semver version example: 26.0.4''))],
                 Exited 1))"
  using assms
  by (simp add: start_keycloak_handler_def import_module_def and_then_simps validate_defined
      split: option.split)

lemma start_keycloak_undefined:
  assumes "keycloakVersion c = None"
  shows "start_keycloak_handler E c =
           and_then (import_module E ''./start-keycloak'') (\<lambda>_.
           and_then (getBuildContext E (projectDirPath c)) (\<lambda>buildContext.
             command E ''./start-keycloak'' buildContext
               (StartKeycloakOptions None (port c) (realmJsonFilePath c))))"
  using assms
  by (simp add: start_keycloak_handler_def validate_undefined and_then_simps)

lemma main_routed:
  "fallback_condition (drop 2 argv) \<Longrightarrow>
     main E argv sel =
       (([SpawnSync ''npx'' (''keycloakify'' # ''build'' # drop 2 argv) Inherit],
         Exited (case env_spawnSync E ''npx'' (''keycloakify'' # ''build'' # drop 2 argv) Inherit of
                   None \<Rightarrow> 1 | Some status \<Rightarrow> status)),
        optionsKeys)"
  by (simp add: main_def fallback_def Let_def)

lemma main_not_routed:
  "\<not> fallback_condition (drop 2 argv) \<Longrightarrow> \<not> help_or_version (options call) \<Longrightarrow>
     main E argv (Some call) = dispatch E optionsKeys call"
  by (simp add: main_def Let_def)


lemma help_or_version_iff:
  "help_or_version argv_options \<longleftrightarrow> set (map fst argv_options) \<inter> set termost_keys \<noteq> {}"
  by (auto simp add: help_or_version_def includes_key_def list_ex_iff)

lemma termost_keys_unregistered: "set termost_keys \<inter> set optionsKeys = {}"
  by (simp add: termost_keys_def optionsKeys_eq)

lemma recognized_not_help_or_version:
  assumes "set (map fst argv_options) \<subseteq> set optionsKeys"
  shows "\<not> help_or_version argv_options"
  using assms termost_keys_unregistered
  by (auto simp add: help_or_version_iff)

lemma dispatch_threw:
  assumes "run_task E keys call = ((evs, Threw e), keys')"
  shows "dispatch E keys call =
           ((evs @ (if env_instanceof_Error E e then [ConsoleError (ErrorValue e)] else []),
             Exited 1), keys')"
  using assms by (simp add: dispatch_def onException_def)



subsection \<open>The skip predicate\<close>

text \<open>
  C3. For every options bag, \<open>skip\<close> scans the supplied keys in their iteration order.
  When every supplied key is in the registry (in particular when there is no key) it
  prints nothing and returns \<open>false\<close>, and the task runs the handler. When some key is
  absent from the registry, the keys split into recognized ones, the first absent key
  and the others; \<open>skip\<close> writes the single line
  \<open>keycloakify: Unrecognized option: {prefix}{key}\<close> to standard error for that first
  absent key, with prefix \<open>-\<close> when the key has length 1 and \<open>--\<close> otherwise, and ends
  the process with exit code 1, so the task ends there too.
\<close>

theorem skip_unrecognized_option:
  fixes E :: "('n, 'e, 'bc) env"
  shows
  "(set (map fst (options call)) \<subseteq> set keys \<longrightarrow>
      skip keys (options call) = (([] :: ('n, 'e, 'bc) event list, Returned False), keys)
      \<and> run_task E keys call = (handler E (selected call) (ctx call), keys))
   \<and> (\<forall>recognized k others.
        map fst (options call) = recognized @ k # others
          \<and> set recognized \<subseteq> set keys \<and> k \<notin> set keys \<longrightarrow>
        skip keys (options call) =
          (([ConsoleError (Plain (''keycloakify: Unrecognized option: ''
               @ (if length k = 1 then ''-'' else ''--'') @ k)) :: ('n, 'e, 'bc) event],
            Exited 1), keys)
        \<and> run_task E keys call =
          (([ConsoleError (Plain (''keycloakify: Unrecognized option: ''
               @ (if length k = 1 then ''-'' else ''--'') @ k))], Exited 1), keys))
   \<and> (\<not> set (map fst (options call)) \<subseteq> set keys \<longrightarrow>
        (\<exists>recognized k others. map fst (options call) = recognized @ k # others
           \<and> set recognized \<subseteq> set keys \<and> k \<notin> set keys))
   \<and> skip keys ([] :: (string \<times> 'n js_value) list) =
       (([] :: ('n, 'e, 'bc) event list, Returned False), keys)"
proof (intro conjI allI impI)
  assume h: "set (map fst (options call)) \<subseteq> set keys"
  show "skip keys (options call) = (([] :: ('n, 'e, 'bc) event list, Returned False), keys)"
    by (rule skip_recognized [OF h])
  show "run_task E keys call = (handler E (selected call) (ctx call), keys)"
    by (rule run_task_recognized [OF h])
next
  fix recognized k others
  assume h: "map fst (options call) = recognized @ k # others
          \<and> set recognized \<subseteq> set keys \<and> k \<notin> set keys"
  then have h1: "map fst (options call) = recognized @ k # others"
    and h2: "set recognized \<subseteq> set keys" and h3: "k \<notin> set keys"
    by simp_all
  show "skip keys (options call) =
          (([ConsoleError (Plain (''keycloakify: Unrecognized option: ''
               @ (if length k = 1 then ''-'' else ''--'') @ k)) :: ('n, 'e, 'bc) event],
            Exited 1), keys)"
    by (rule skip_first_unrecognized [OF h1 h2 h3])
  show "run_task E keys call =
          (([ConsoleError (Plain (''keycloakify: Unrecognized option: ''
               @ (if length k = 1 then ''-'' else ''--'') @ k))], Exited 1), keys)"
    by (simp add: run_task_def skip_first_unrecognized [OF h1 h2 h3])
next
  assume "\<not> set (map fst (options call)) \<subseteq> set keys"
  then show "\<exists>recognized k others. map fst (options call) = recognized @ k # others
           \<and> set recognized \<subseteq> set keys \<and> k \<notin> set keys"
    by (rule first_unrecognized_exists)
next
  show "skip keys ([] :: (string \<times> 'n js_value) list) =
       (([] :: ('n, 'e, 'bc) event list, Returned False), keys)"
    by (simp add: skip_def)
qed

theorem skip_unrecognized_option_witness:
  "set (map fst (options (sample_call Build [''p'', ''file''] None))) \<subseteq> set optionsKeys
   \<and> run_task sample_env optionsKeys (sample_call Build [''p'', ''file''] None) =
       (handler sample_env Build (sample_context None), optionsKeys)
   \<and> map fst (options (sample_call Build [''project'', ''v'', ''verbose''] None)) =
       [''project''] @ ''v'' # [''verbose'']
   \<and> set [''project''] \<subseteq> set optionsKeys \<and> ''v'' \<notin> set optionsKeys
   \<and> run_task sample_env optionsKeys (sample_call Build [''project'', ''v'', ''verbose''] None) =
       (([ConsoleError (Plain ''keycloakify: Unrecognized option: -v'')], Exited 1), optionsKeys)
   \<and> map fst (options (sample_call Build [''verbose'', ''v''] None)) = [] @ ''verbose'' # [''v'']
   \<and> ''verbose'' \<notin> set optionsKeys
   \<and> run_task sample_env optionsKeys (sample_call Build [''verbose'', ''v''] None) =
       (([ConsoleError (Plain ''keycloakify: Unrecognized option: --verbose'')], Exited 1),
        optionsKeys)"
proof -
  have a: "set (map fst (options (sample_call Build [''p'', ''file''] None))) \<subseteq> set optionsKeys"
    by (simp add: sample_call_def optionsKeys_eq)
  have b: "map fst (options (sample_call Build [''project'', ''v'', ''verbose''] None)) =
       [''project''] @ ''v'' # [''verbose'']
     \<and> set [''project''] \<subseteq> set optionsKeys \<and> ''v'' \<notin> set optionsKeys"
    by (simp add: sample_call_def optionsKeys_eq)
  have c: "map fst (options (sample_call Build [''verbose'', ''v''] None)) = [] @ ''verbose'' # [''v'']
     \<and> set [] \<subseteq> set optionsKeys \<and> ''verbose'' \<notin> set optionsKeys"
    by (simp add: sample_call_def optionsKeys_eq)
  from a skip_unrecognized_option [of "sample_call Build [''p'', ''file''] None" optionsKeys sample_env]
  have "run_task sample_env optionsKeys (sample_call Build [''p'', ''file''] None) =
       (handler sample_env (selected (sample_call Build [''p'', ''file''] None))
          (ctx (sample_call Build [''p'', ''file''] None)), optionsKeys)"
    by blast
  then have a': "run_task sample_env optionsKeys (sample_call Build [''p'', ''file''] None) =
       (handler sample_env Build (sample_context None), optionsKeys)"
    by (simp add: sample_call_def)
  note t = skip_unrecognized_option [THEN conjunct2, THEN conjunct1, rule_format]
  from t [of "sample_call Build [''project'', ''v'', ''verbose''] None"
      "[''project'']" "''v''" "[''verbose'']" optionsKeys sample_env, OF b]
  have b': "run_task sample_env optionsKeys (sample_call Build [''project'', ''v'', ''verbose''] None) =
       (([ConsoleError (Plain ''keycloakify: Unrecognized option: -v'')], Exited 1), optionsKeys)"
    by simp
  from t [of "sample_call Build [''verbose'', ''v''] None"
      "[]" "''verbose''" "[''v'']" optionsKeys sample_env, OF c]
  have c': "run_task sample_env optionsKeys (sample_call Build [''verbose'', ''v''] None) =
       (([ConsoleError (Plain ''keycloakify: Unrecognized option: --verbose'')], Exited 1),
        optionsKeys)"
    by simp
  from a a' b b' c c' show ?thesis by simp
qed

text \<open>
  C9. \<open>skip\<close> never returns \<open>true\<close>: for every options bag its result is \<open>false\<close> or the
  end of the process with exit code 1. Hence a task either runs its handler or ends the
  process with code 1; the outcome in which the task is skipped and the program goes on
  does not occur.
\<close>

theorem skip_never_true:
  "(case skip keys argv_options of
      ((evs, outcome), keys') \<Rightarrow>
        (outcome = Returned False \<or> outcome = Exited 1) \<and> outcome \<noteq> Returned True)
   \<and> (run_task E keys call = (handler E (selected call) (ctx call), keys)
      \<or> (\<exists>evs. run_task E keys call = ((evs, Exited 1), keys)))"
proof (intro conjI)
  show "case skip keys argv_options of
      ((evs, outcome), keys') \<Rightarrow>
        (outcome = Returned False \<or> outcome = Exited 1) \<and> outcome \<noteq> Returned True"
    by (simp add: skip_def split: option.split)
  show "run_task E keys call = (handler E (selected call) (ctx call), keys)
      \<or> (\<exists>evs. run_task E keys call = ((evs, Exited 1), keys))"
    by (simp add: run_task_def skip_def split: option.split prod.split)
qed

subsection \<open>The Option Registry\<close>

text \<open>
  C10. Once the catalog is constructed, \<open>optionsKeys\<close> holds exactly the six tokens
  \<open>project\<close>, \<open>p\<close>, \<open>port\<close>, \<open>keycloak-version\<close>, \<open>import\<close>, \<open>file\<close>, in this order and
  each once. No step of dispatch changes the array: \<open>skip\<close>, a task, the dispatch of a
  call and a whole run leave it as they found it.
\<close>

theorem optionsKeys_registry:
  "optionsKeys = [''project'', ''p'', ''port'', ''keycloak-version'', ''import'', ''file'']
   \<and> distinct optionsKeys
   \<and> length optionsKeys = 6
   \<and> snd (skip keys argv_options) = keys
   \<and> snd (run_task E keys call) = keys
   \<and> snd (dispatch E keys call) = keys
   \<and> snd (main E argv sel) = optionsKeys"
proof (intro conjI)
  show "optionsKeys = [''project'', ''p'', ''port'', ''keycloak-version'', ''import'', ''file'']"
    by (rule optionsKeys_eq)
  show "distinct optionsKeys"
    by (simp add: optionsKeys_eq)
  show "length optionsKeys = 6"
    by (simp add: optionsKeys_eq)
  show "snd (skip keys argv_options) = keys"
    by (rule skip_keys)
  show "snd (run_task E keys call) = keys"
    by (rule run_task_keys)
  show "snd (dispatch E keys call) = keys"
    by (rule dispatch_keys)
  show "snd (main E argv sel) = optionsKeys"
    by (simp add: main_def Let_def dispatch_keys split: option.split)
qed




subsection \<open>The Keycloak version of start-keycloak\<close>

text \<open>
  C1. The claim: a version string that \<open>SemVer.parse\<close> accepts, such as \<open>26.0.4\<close>, passes
  the validation block and reaches the command unchanged. The code does not do this.
  The function computing \<open>isValidVersion\<close> ends with a bare \<open>return;\<close> on the path where
  the parse succeeded, so \<open>isValidVersion\<close> is \<open>undefined\<close> there, the test
  \<open>if (isValidVersion)\<close> fails, and the block prints the message of an invalid version
  and ends the process with code 1. Evaluated at \<open>26.0.4\<close>, with a parser that accepts
  it: the handler imports the module, calls the parser, prints the message and exits
  with code 1; the command is not invoked. The block exits with code 1 for every
  defined value, whatever the parser answers.
\<close>

theorem valid_keycloak_version_rejected:
  "SemVer_parse ''26.0.4'' = Some \<lparr>major = 26, minor = 0, patch = 4\<rparr>
   \<and> start_keycloak_handler sample_env (sample_context (Some (VersionString ''26.0.4''))) =
       ([Import ''./start-keycloak'', SemVerParse ''26.0.4'',
         ConsoleLog (Red
           ''Invalid Keycloak version: 26.0.4 It should be a valid semver version example: 26.0.4'')],
        Exited 1)
   \<and> (\<forall>(E :: ('n, 'e, 'bc) env) v.
         snd (validate_keycloak_version E (Some v)) = Exited 1)"
proof (intro conjI allI)
  show "SemVer_parse ''26.0.4'' = Some \<lparr>major = 26, minor = 0, patch = 4\<rparr>"
    by code_simp
  show "start_keycloak_handler sample_env (sample_context (Some (VersionString ''26.0.4''))) =
       ([Import ''./start-keycloak'', SemVerParse ''26.0.4'',
         ConsoleLog (Red
           ''Invalid Keycloak version: 26.0.4 It should be a valid semver version example: 26.0.4'')],
        Exited 1)"
    by code_simp
  fix E :: "('n, 'e, 'bc) env" and v
  show "snd (validate_keycloak_version E (Some v)) = Exited 1"
    by (simp add: validate_defined)
qed

text \<open>
  C2. For \<open>start-keycloak\<close> with recognized options, when \<open>keycloakVersion\<close> is a number,
  or a string on which \<open>SemVer.parse\<close> throws, the process ends with exit code 1 and the
  command of \<open>start-keycloak\<close> is never invoked. Once the module of the command is loaded,
  what the process does is exactly this: it calls the parser (for a string), prints with
  \<open>console.log\<close>, that is on standard output, the red message
  \<open>Invalid Keycloak version: {value} It should be a valid semver version example: 26.0.4\<close>,
  and exits with code 1; nothing is written with \<open>console.error\<close>.
\<close>

theorem invalid_keycloak_version_exits:
  assumes "selected call = StartKeycloak"
    and "set (map fst (options call)) \<subseteq> set keys"
    and "keycloakVersion (ctx call) = Some v"
    and "(\<exists>n. v = VersionNumber n) \<or> (\<exists>s. v = VersionString s \<and> env_SemVer_parse E s = None)"
  shows "snd (fst (dispatch E keys call)) = Exited 1
    \<and> (\<forall>m bc opts. Command m bc opts \<notin> set (fst (fst (dispatch E keys call))))
    \<and> (env_import E ''./start-keycloak'' = None \<longrightarrow>
         dispatch E keys call =
           ((Import ''./start-keycloak''
               # (case v of VersionNumber n \<Rightarrow> [] | VersionString s \<Rightarrow> [SemVerParse s])
               @ [ConsoleLog (Red (''Invalid Keycloak version: ''
                     @ (case v of VersionNumber n \<Rightarrow> env_toString E n | VersionString s \<Rightarrow> s)
                     @ '' It should be a valid semver version example: 26.0.4''))],
             Exited 1), keys))"
proof -
  have rt: "run_task E keys call = (start_keycloak_handler E (ctx call), keys)"
    using run_task_recognized [OF assms(2), of E] assms(1) by simp
  note h = start_keycloak_defined [OF assms(3), of E]
  show ?thesis
  proof (cases "env_import E ''./start-keycloak''")
    case None
    with h have "start_keycloak_handler E (ctx call) =
        (Import ''./start-keycloak''
               # (case v of VersionNumber n \<Rightarrow> [] | VersionString s \<Rightarrow> [SemVerParse s])
               @ [ConsoleLog (Red (''Invalid Keycloak version: '' @ template E v
                     @ '' It should be a valid semver version example: 26.0.4''))],
             Exited 1)"
      by simp
    with rt have "dispatch E keys call =
           ((Import ''./start-keycloak''
               # (case v of VersionNumber n \<Rightarrow> [] | VersionString s \<Rightarrow> [SemVerParse s])
               @ [ConsoleLog (Red (''Invalid Keycloak version: ''
                     @ (case v of VersionNumber n \<Rightarrow> env_toString E n | VersionString s \<Rightarrow> s)
                     @ '' It should be a valid semver version example: 26.0.4''))],
             Exited 1), keys)"
      by (simp add: dispatch_def template_def split: keycloak_version.split)
    then show ?thesis
      by (auto split: keycloak_version.split)
  next
    case (Some e)
    with h have "start_keycloak_handler E (ctx call) = ([Import ''./start-keycloak''], Threw e)"
      by simp
    with rt have "dispatch E keys call =
        (([Import ''./start-keycloak'']
            @ (if env_instanceof_Error E e then [ConsoleError (ErrorValue e)] else []),
          Exited 1), keys)"
      by (simp add: dispatch_threw)
    with Some show ?thesis by simp
  qed
qed

theorem invalid_keycloak_version_exits_witness:
  "env_SemVer_parse sample_env ''not-a-version'' = None
   \<and> dispatch sample_env optionsKeys
        (sample_call StartKeycloak [''keycloak-version'']
           (Some (VersionString ''not-a-version''))) =
       (([Import ''./start-keycloak'', SemVerParse ''not-a-version'',
          ConsoleLog (Red
            ''Invalid Keycloak version: not-a-version It should be a valid semver version example: 26.0.4'')],
         Exited 1), optionsKeys)
   \<and> dispatch sample_env optionsKeys
        (sample_call StartKeycloak [''keycloak-version''] (Some (VersionNumber 26))) =
       (([Import ''./start-keycloak'',
          ConsoleLog (Red
            ''Invalid Keycloak version: 26 It should be a valid semver version example: 26.0.4'')],
         Exited 1), optionsKeys)"
proof -
  let ?a = "sample_call StartKeycloak [''keycloak-version''] (Some (VersionString ''not-a-version''))"
  let ?b = "sample_call StartKeycloak [''keycloak-version''] (Some (VersionNumber 26))"
  have p: "env_SemVer_parse sample_env ''not-a-version'' = None"
    by code_simp
  have d: "decimal 26 = ''26''"
    by code_simp
  have i: "env_import sample_env ''./start-keycloak'' = None"
    by (simp add: sample_env_def)
  have a1: "selected ?a = StartKeycloak" and a2: "set (map fst (options ?a)) \<subseteq> set optionsKeys"
    and a3: "keycloakVersion (ctx ?a) = Some (VersionString ''not-a-version'')"
    by (simp_all add: sample_call_def sample_context_def optionsKeys_eq)
  have a4: "(\<exists>n. VersionString ''not-a-version'' = VersionNumber (n::nat))
     \<or> (\<exists>s. VersionString ''not-a-version'' = (VersionString s :: nat keycloak_version)
            \<and> env_SemVer_parse sample_env s = None)"
    using p by simp
  have b1: "selected ?b = StartKeycloak" and b2: "set (map fst (options ?b)) \<subseteq> set optionsKeys"
    and b3: "keycloakVersion (ctx ?b) = Some (VersionNumber 26)"
    by (simp_all add: sample_call_def sample_context_def optionsKeys_eq)
  have b4: "(\<exists>n. VersionNumber 26 = VersionNumber (n::nat))
     \<or> (\<exists>s. VersionNumber (26::nat) = VersionString s \<and> env_SemVer_parse sample_env s = None)"
    by simp
  from invalid_keycloak_version_exits [OF a1 a2 a3 a4] i
  have a: "dispatch sample_env optionsKeys ?a =
       (([Import ''./start-keycloak'', SemVerParse ''not-a-version'',
          ConsoleLog (Red
            ''Invalid Keycloak version: not-a-version It should be a valid semver version example: 26.0.4'')],
         Exited 1), optionsKeys)"
    by simp
  from invalid_keycloak_version_exits [OF b1 b2 b3 b4] i
  have "dispatch sample_env optionsKeys ?b =
       (([Import ''./start-keycloak'',
          ConsoleLog (Red (''Invalid Keycloak version: '' @ env_toString sample_env 26
             @ '' It should be a valid semver version example: 26.0.4''))],
         Exited 1), optionsKeys)"
    by simp
  then have b: "dispatch sample_env optionsKeys ?b =
       (([Import ''./start-keycloak'',
          ConsoleLog (Red
            ''Invalid Keycloak version: 26 It should be a valid semver version example: 26.0.4'')],
         Exited 1), optionsKeys)"
    by (simp add: sample_env_def d)
  from p a b show ?thesis by simp
qed

text \<open>
  C7. For \<open>start-keycloak\<close>, when \<open>keycloakVersion\<close> is \<open>undefined\<close> the validation block
  is left at once: it calls no parser, prints nothing and does not exit. The handler is
  then the import of the module followed by the call of the command with
  \<open>keycloakVersion\<close> \<open>undefined\<close>; no event of the handler is a call of \<open>SemVer.parse\<close>,
  a \<open>console.log\<close> or a \<open>console.error\<close>. When the module loads and \<open>getBuildContext\<close> returns, the command is
  invoked with \<open>keycloakVersion\<close> \<open>undefined\<close> and the port and realm file as supplied,
  and the handler ends as the command ends.
\<close>

theorem absent_keycloak_version_proceeds:
  assumes "keycloakVersion c = None"
  shows "validate_keycloak_version E (keycloakVersion c) = ([], Returned ())
    \<and> start_keycloak_handler E c =
        and_then (import_module E ''./start-keycloak'') (\<lambda>_.
        and_then (getBuildContext E (projectDirPath c)) (\<lambda>buildContext.
          command E ''./start-keycloak'' buildContext
            (StartKeycloakOptions None (port c) (realmJsonFilePath c))))
    \<and> (\<forall>s. SemVerParse s \<notin> set (fst (start_keycloak_handler E c)))
    \<and> (\<forall>t. ConsoleLog t \<notin> set (fst (start_keycloak_handler E c)))
    \<and> (\<forall>t. ConsoleError t \<notin> set (fst (start_keycloak_handler E c)))
    \<and> (\<forall>bc. env_import E ''./start-keycloak'' = None
          \<and> env_getBuildContext E (projectDirPath c) = Inr bc \<longrightarrow>
        start_keycloak_handler E c =
          ([Import ''./start-keycloak'', GetBuildContext (projectDirPath c),
            Command ''./start-keycloak'' bc
              (StartKeycloakOptions None (port c) (realmJsonFilePath c))],
           env_command E ''./start-keycloak'' bc
              (StartKeycloakOptions None (port c) (realmJsonFilePath c))))"
proof (intro conjI allI impI)
  show "validate_keycloak_version E (keycloakVersion c) = ([], Returned ())"
    using assms by (simp add: validate_undefined)
  show h: "start_keycloak_handler E c =
        and_then (import_module E ''./start-keycloak'') (\<lambda>_.
        and_then (getBuildContext E (projectDirPath c)) (\<lambda>buildContext.
          command E ''./start-keycloak'' buildContext
            (StartKeycloakOptions None (port c) (realmJsonFilePath c))))"
    by (rule start_keycloak_undefined [OF assms])
  fix s
  show "SemVerParse s \<notin> set (fst (start_keycloak_handler E c))"
    unfolding h
    by (auto dest!: and_then_events simp add: import_module_def getBuildContext_def command_def)
next
  fix t
  show "ConsoleLog t \<notin> set (fst (start_keycloak_handler E c))"
    unfolding start_keycloak_undefined [OF assms]
    by (auto dest!: and_then_events simp add: import_module_def getBuildContext_def command_def)
next
  fix t
  show "ConsoleError t \<notin> set (fst (start_keycloak_handler E c))"
    unfolding start_keycloak_undefined [OF assms]
    by (auto dest!: and_then_events simp add: import_module_def getBuildContext_def command_def)
next
  fix bc
  assume "env_import E ''./start-keycloak'' = None
          \<and> env_getBuildContext E (projectDirPath c) = Inr bc"
  then show "start_keycloak_handler E c =
          ([Import ''./start-keycloak'', GetBuildContext (projectDirPath c),
            Command ''./start-keycloak'' bc
              (StartKeycloakOptions None (port c) (realmJsonFilePath c))],
           env_command E ''./start-keycloak'' bc
              (StartKeycloakOptions None (port c) (realmJsonFilePath c)))"
    unfolding start_keycloak_undefined [OF assms]
    by (simp add: import_module_def getBuildContext_def command_def and_then_simps)
qed

theorem absent_keycloak_version_proceeds_witness:
  "keycloakVersion (sample_context None) = None
   \<and> env_import sample_env ''./start-keycloak'' = None
   \<and> env_getBuildContext sample_env (projectDirPath (sample_context None)) = Inr ''.''
   \<and> validate_keycloak_version sample_env (keycloakVersion (sample_context None)) =
       ([], Returned ())
   \<and> start_keycloak_handler sample_env (sample_context None) =
       ([Import ''./start-keycloak'', GetBuildContext None,
         Command ''./start-keycloak'' ''.'' (StartKeycloakOptions None None None)],
        Returned ())"
proof -
  have a: "keycloakVersion (sample_context None :: nat handler_context) = None"
    by (simp add: sample_context_def)
  have b: "env_import sample_env ''./start-keycloak'' = None
    \<and> env_getBuildContext sample_env (projectDirPath (sample_context None)) = Inr ''.''"
    by (simp add: sample_env_def sample_context_def)
  note t = absent_keycloak_version_proceeds [OF a, of sample_env]
  from t have v: "validate_keycloak_version sample_env (keycloakVersion (sample_context None)) =
       ([], Returned ())"
    by (rule conjunct1)
  from t b have "start_keycloak_handler sample_env (sample_context None) =
          ([Import ''./start-keycloak'', GetBuildContext (projectDirPath (sample_context None)),
            Command ''./start-keycloak'' ''.''
              (StartKeycloakOptions None (port (sample_context None))
                 (realmJsonFilePath (sample_context None)))],
           env_command sample_env ''./start-keycloak'' ''.''
              (StartKeycloakOptions None (port (sample_context None))
                 (realmJsonFilePath (sample_context None))))"
    by blast
  then have h: "start_keycloak_handler sample_env (sample_context None) =
       ([Import ''./start-keycloak'', GetBuildContext None,
         Command ''./start-keycloak'' ''.'' (StartKeycloakOptions None None None)],
        Returned ())"
    by (simp add: sample_env_def sample_context_def)
  from a b v h show ?thesis by simp
qed

subsection \<open>The fallback router\<close>

text \<open>
  C4. With \<open>rest\<close> the arguments after the first two of \<open>process.argv\<close>, the fallback
  condition holds if and only if \<open>rest\<close> is empty, or \<open>rest[0]\<close> starts with a dash and is
  neither \<open>--help\<close> nor \<open>-h\<close>. In particular it fails whenever the first argument is
  \<open>--help\<close> or \<open>-h\<close>. A run spawns the child process if and only if the condition holds.
\<close>

theorem fallback_router_condition:
  "(fallback_condition (drop 2 argv) \<longleftrightarrow>
      drop 2 argv = []
      \<or> (prefix ''-'' (hd (drop 2 argv))
           \<and> hd (drop 2 argv) \<noteq> ''--help'' \<and> hd (drop 2 argv) \<noteq> ''-h''))
   \<and> \<not> fallback_condition (''--help'' # others)
   \<and> \<not> fallback_condition (''-h'' # others)
   \<and> ((\<exists>p args io. SpawnSync p args io \<in> set (fst (fst (main E argv sel))))
        \<longleftrightarrow> fallback_condition (drop 2 argv))"
proof (intro conjI)
  show "fallback_condition (drop 2 argv) \<longleftrightarrow>
      drop 2 argv = []
      \<or> (prefix ''-'' (hd (drop 2 argv))
           \<and> hd (drop 2 argv) \<noteq> ''--help'' \<and> hd (drop 2 argv) \<noteq> ''-h'')"
    by (cases "drop 2 argv") (simp_all add: fallback_condition_def startsWith_prefix)
  show "\<not> fallback_condition (''--help'' # others)"
    by (simp add: fallback_condition_def)
  show "\<not> fallback_condition (''-h'' # others)"
    by (simp add: fallback_condition_def)
  show "(\<exists>p args io. SpawnSync p args io \<in> set (fst (fst (main E argv sel))))
        \<longleftrightarrow> fallback_condition (drop 2 argv)"
  proof (cases "fallback_condition (drop 2 argv)")
    case True
    then show ?thesis by (auto simp add: main_routed)
  next
    case False
    then show ?thesis
      by (cases sel) (simp_all add: main_def Let_def dispatch_no_spawn)
  qed
qed

text \<open>
  C5. When the fallback condition holds, the run consists of one synchronous spawn and
  the exit: the child is \<open>npx keycloakify\<close> with the arguments \<open>build\<close> followed by
  \<open>rest\<close>, its standard streams are inherited, and the process exits with the status
  \<open>spawnSync\<close> answers for this child, or with 1 when the status is \<open>null\<close>. No command of
  the catalog is dispatched in such a run.
\<close>

theorem fallback_router_action:
  assumes "fallback_condition (drop 2 argv)"
  shows "main E argv sel =
       (([SpawnSync ''npx'' (''keycloakify'' # (''build'' # drop 2 argv)) Inherit],
         Exited (case env_spawnSync E ''npx'' (''keycloakify'' # (''build'' # drop 2 argv)) Inherit of
                   None \<Rightarrow> 1 | Some status \<Rightarrow> status)),
        optionsKeys)"
  using assms by (simp add: main_def fallback_def Let_def)

theorem fallback_router_action_witness:
  "fallback_condition (drop 2 [''node'', ''keycloakify''])
   \<and> main (sample_env\<lparr>env_spawnSync := \<lambda>p args io. Some 3\<rparr>) [''node'', ''keycloakify''] None =
       (([SpawnSync ''npx'' [''keycloakify'', ''build''] Inherit], Exited 3), optionsKeys)
   \<and> fallback_condition (drop 2 [''node'', ''keycloakify'', ''--project'', ''foo''])
   \<and> main sample_env [''node'', ''keycloakify'', ''--project'', ''foo'']
        (Some (sample_call Build [''project''] None)) =
       (([SpawnSync ''npx'' [''keycloakify'', ''build'', ''--project'', ''foo''] Inherit],
         Exited 0), optionsKeys)
   \<and> main (sample_env\<lparr>env_spawnSync := \<lambda>p args io. None\<rparr>)
        [''node'', ''keycloakify'', ''--project'', ''foo''] None =
       (([SpawnSync ''npx'' [''keycloakify'', ''build'', ''--project'', ''foo''] Inherit],
         Exited 1), optionsKeys)"
proof -
  have a: "fallback_condition (drop 2 [''node'', ''keycloakify''])"
    by (simp add: fallback_condition_def)
  have b: "fallback_condition (drop 2 [''node'', ''keycloakify'', ''--project'', ''foo''])"
    by (simp add: fallback_condition_def startsWith_def)
  from fallback_router_action [OF a, of "sample_env\<lparr>env_spawnSync := \<lambda>p args io. Some 3\<rparr>" None]
  have a': "main (sample_env\<lparr>env_spawnSync := \<lambda>p args io. Some 3\<rparr>) [''node'', ''keycloakify''] None =
       (([SpawnSync ''npx'' [''keycloakify'', ''build''] Inherit], Exited 3), optionsKeys)"
    by simp
  from fallback_router_action [OF b, of sample_env "Some (sample_call Build [''project''] None)"]
  have b': "main sample_env [''node'', ''keycloakify'', ''--project'', ''foo'']
        (Some (sample_call Build [''project''] None)) =
       (([SpawnSync ''npx'' [''keycloakify'', ''build'', ''--project'', ''foo''] Inherit],
         Exited 0), optionsKeys)"
    by (simp add: sample_env_def)
  from fallback_router_action [OF b, of "sample_env\<lparr>env_spawnSync := \<lambda>p args io. None\<rparr>" None]
  have c': "main (sample_env\<lparr>env_spawnSync := \<lambda>p args io. None\<rparr>)
        [''node'', ''keycloakify'', ''--project'', ''foo''] None =
       (([SpawnSync ''npx'' [''keycloakify'', ''build'', ''--project'', ''foo''] Inherit],
         Exited 1), optionsKeys)"
    by simp
  from a a' b b' c' show ?thesis by simp
qed

subsection \<open>Failure paths\<close>

text \<open>
  C8 (amended). Every failure path of a run ends the process with exit code 1, after one
  attempt: an unrecognized option reported by the task's \<open>skip\<close>, which is called when the
  options bag holds none of termost's keys \<open>help\<close>, \<open>h\<close>, \<open>version\<close>, \<open>v\<close> (the run is the
  one line on standard error and the exit); an invalid Keycloak version (the run is the
  import, the parse of a string, the red message and the exit); an exception thrown or
  rejected by the selected handler (the run is the events of the handler once and the
  exit with code 1; when the thrown value is an \<open>Error\<close>, \<open>onException\<close> writes it
  with \<open>console.error\<close> before the exit, and any other thrown value is not logged); and a
  routed child process whose status is \<open>null\<close> (the run is the one spawn and the exit).
  No exception escapes a run.
\<close>

theorem failure_paths_exit_1:
  "(\<not> fallback_condition (drop 2 argv) \<and> \<not> help_or_version (options call)
      \<and> \<not> set (map fst (options call)) \<subseteq> set optionsKeys \<longrightarrow>
      (\<exists>k. main E argv (Some call) =
         (([ConsoleError (Plain (''keycloakify: Unrecognized option: ''
              @ (if length k = 1 then ''-'' else ''--'') @ k))], Exited 1), optionsKeys)))
   \<and> (\<forall>v. \<not> fallback_condition (drop 2 argv)
         \<and> set (map fst (options call)) \<subseteq> set optionsKeys
         \<and> selected call = StartKeycloak \<and> keycloakVersion (ctx call) = Some v
         \<and> env_import E ''./start-keycloak'' = None \<longrightarrow>
       main E argv (Some call) =
         ((Import ''./start-keycloak''
             # (case v of VersionNumber n \<Rightarrow> [] | VersionString s \<Rightarrow> [SemVerParse s])
             @ [ConsoleLog (Red (''Invalid Keycloak version: '' @ template E v
                   @ '' It should be a valid semver version example: 26.0.4''))],
           Exited 1), optionsKeys))
   \<and> (\<forall>evs e. \<not> fallback_condition (drop 2 argv)
         \<and> set (map fst (options call)) \<subseteq> set optionsKeys
         \<and> handler E (selected call) (ctx call) = (evs, Threw e) \<longrightarrow>
       main E argv (Some call) =
         ((evs @ (if env_instanceof_Error E e then [ConsoleError (ErrorValue e)] else []),
           Exited 1), optionsKeys))
   \<and> (fallback_condition (drop 2 argv)
         \<and> env_spawnSync E ''npx'' (''keycloakify'' # ''build'' # drop 2 argv) Inherit = None \<longrightarrow>
       main E argv sel =
         (([SpawnSync ''npx'' (''keycloakify'' # ''build'' # drop 2 argv) Inherit], Exited 1),
          optionsKeys))
   \<and> (\<forall>e. snd (fst (main E argv sel)) \<noteq> Threw e)"
proof (intro conjI allI impI)
  assume h: "\<not> fallback_condition (drop 2 argv) \<and> \<not> help_or_version (options call)
      \<and> \<not> set (map fst (options call)) \<subseteq> set optionsKeys"
  then have "\<not> set (map fst (options call)) \<subseteq> set optionsKeys" by simp
  from run_task_unrecognized [OF this, of E] obtain k where
    "run_task E optionsKeys call =
       (([ConsoleError (Plain (''keycloakify: Unrecognized option: ''
            @ (if length k = 1 then ''-'' else ''--'') @ k))], Exited 1), optionsKeys)"
    by blast
  then have "dispatch E optionsKeys call =
       (([ConsoleError (Plain (''keycloakify: Unrecognized option: ''
            @ (if length k = 1 then ''-'' else ''--'') @ k))], Exited 1), optionsKeys)"
    by (simp add: dispatch_def)
  with h have "main E argv (Some call) =
         (([ConsoleError (Plain (''keycloakify: Unrecognized option: ''
              @ (if length k = 1 then ''-'' else ''--'') @ k))], Exited 1), optionsKeys)"
    by (simp add: main_not_routed)
  then show "\<exists>k. main E argv (Some call) =
         (([ConsoleError (Plain (''keycloakify: Unrecognized option: ''
              @ (if length k = 1 then ''-'' else ''--'') @ k))], Exited 1), optionsKeys)"
    by (rule exI)
next
  fix v
  assume h: "\<not> fallback_condition (drop 2 argv)
         \<and> set (map fst (options call)) \<subseteq> set optionsKeys
         \<and> selected call = StartKeycloak \<and> keycloakVersion (ctx call) = Some v
         \<and> env_import E ''./start-keycloak'' = None"
  then have r: "set (map fst (options call)) \<subseteq> set optionsKeys"
    and kv: "keycloakVersion (ctx call) = Some v"
    by simp_all
  from run_task_recognized [OF r, of E] h
  have "run_task E optionsKeys call = (start_keycloak_handler E (ctx call), optionsKeys)"
    by simp
  with start_keycloak_defined [OF kv, of E] h
  have "dispatch E optionsKeys call =
         ((Import ''./start-keycloak''
             # (case v of VersionNumber n \<Rightarrow> [] | VersionString s \<Rightarrow> [SemVerParse s])
             @ [ConsoleLog (Red (''Invalid Keycloak version: '' @ template E v
                   @ '' It should be a valid semver version example: 26.0.4''))],
           Exited 1), optionsKeys)"
    by (simp add: dispatch_def)
  with h recognized_not_help_or_version [OF r]
  show "main E argv (Some call) =
         ((Import ''./start-keycloak''
             # (case v of VersionNumber n \<Rightarrow> [] | VersionString s \<Rightarrow> [SemVerParse s])
             @ [ConsoleLog (Red (''Invalid Keycloak version: '' @ template E v
                   @ '' It should be a valid semver version example: 26.0.4''))],
           Exited 1), optionsKeys)"
    by (simp add: main_not_routed)
next
  fix evs e
  assume h: "\<not> fallback_condition (drop 2 argv)
         \<and> set (map fst (options call)) \<subseteq> set optionsKeys
         \<and> handler E (selected call) (ctx call) = (evs, Threw e)"
  then have r: "set (map fst (options call)) \<subseteq> set optionsKeys" by simp
  from run_task_recognized [OF r, of E] h
  have "run_task E optionsKeys call = ((evs, Threw e), optionsKeys)"
    by simp
  from dispatch_threw [OF this] h recognized_not_help_or_version [OF r]
  show "main E argv (Some call) =
         ((evs @ (if env_instanceof_Error E e then [ConsoleError (ErrorValue e)] else []),
           Exited 1), optionsKeys)"
    by (simp add: main_not_routed)
next
  assume "fallback_condition (drop 2 argv)
         \<and> env_spawnSync E ''npx'' (''keycloakify'' # ''build'' # drop 2 argv) Inherit = None"
  then show "main E argv sel =
         (([SpawnSync ''npx'' (''keycloakify'' # ''build'' # drop 2 argv) Inherit], Exited 1),
          optionsKeys)"
    by (simp add: main_routed)
next
  fix e
  have "snd (fst (dispatch E optionsKeys c)) \<noteq> Threw e" for c
    by (simp add: dispatch_def onException_def split: prod.split completion.split)
  then show "snd (fst (main E argv sel)) \<noteq> Threw e"
    by (cases sel) (simp_all add: main_def fallback_def Let_def)
qed

theorem failure_paths_exit_1_witness:
  "\<not> fallback_condition (drop 2 [''node'', ''keycloakify'', ''build'', ''--verbose''])
   \<and> \<not> help_or_version (options (sample_call Build [''verbose''] None))
   \<and> \<not> set (map fst (options (sample_call Build [''verbose''] None))) \<subseteq> set optionsKeys
   \<and> snd (fst (main sample_env [''node'', ''keycloakify'', ''build'', ''--verbose'']
        (Some (sample_call Build [''verbose''] None)))) = Exited 1
   \<and> main sample_env [''node'', ''keycloakify'', ''start-keycloak'', ''--keycloak-version'', ''x'']
        (Some (sample_call StartKeycloak [''keycloak-version''] (Some (VersionString ''x'')))) =
       (([Import ''./start-keycloak'', SemVerParse ''x'',
          ConsoleLog (Red
            ''Invalid Keycloak version: x It should be a valid semver version example: 26.0.4'')],
         Exited 1), optionsKeys)
   \<and> handler (sample_env\<lparr>env_command := \<lambda>m bc opts. Threw (ErrorObject ''boom'')\<rparr>)
        Build (sample_context None) =
       ([Import ''./keycloakify'', GetBuildContext None,
         Command ''./keycloakify'' ''.'' NoCliCommandOptions], Threw (ErrorObject ''boom''))
   \<and> main (sample_env\<lparr>env_command := \<lambda>m bc opts. Threw (ErrorObject ''boom'')\<rparr>)
        [''node'', ''keycloakify'', ''build''] (Some (sample_call Build [] None)) =
       (([Import ''./keycloakify'', GetBuildContext None,
          Command ''./keycloakify'' ''.'' NoCliCommandOptions,
          ConsoleError (ErrorValue (ErrorObject ''boom''))], Exited 1), optionsKeys)
   \<and> main (sample_env\<lparr>env_command := \<lambda>m bc opts. Threw (StringValue ''boom'')\<rparr>)
        [''node'', ''keycloakify'', ''build''] (Some (sample_call Build [] None)) =
       (([Import ''./keycloakify'', GetBuildContext None,
          Command ''./keycloakify'' ''.'' NoCliCommandOptions], Exited 1), optionsKeys)
   \<and> main (sample_env\<lparr>env_spawnSync := \<lambda>p args io. None\<rparr>) [''node'', ''keycloakify''] None =
       (([SpawnSync ''npx'' [''keycloakify'', ''build''] Inherit], Exited 1), optionsKeys)"
proof -
  let ?boom = "sample_env\<lparr>env_command := \<lambda>m bc opts. Threw (ErrorObject ''boom'')\<rparr>"
  let ?text = "sample_env\<lparr>env_command := \<lambda>m bc opts. Threw (StringValue ''boom'')\<rparr>"
  let ?nostatus = "sample_env\<lparr>env_spawnSync := \<lambda>p args io. None\<rparr>"
  let ?argv1 = "[''node'', ''keycloakify'', ''build'', ''--verbose'']"
  let ?argv2 = "[''node'', ''keycloakify'', ''start-keycloak'', ''--keycloak-version'', ''x'']"
  let ?argv3 = "[''node'', ''keycloakify'', ''build'']"
  let ?call2 = "sample_call StartKeycloak [''keycloak-version''] (Some (VersionString ''x''))"
  have a: "\<not> fallback_condition (drop 2 ?argv1)
     \<and> \<not> help_or_version (options (sample_call Build [''verbose''] None))
     \<and> \<not> set (map fst (options (sample_call Build [''verbose''] None))) \<subseteq> set optionsKeys"
    by (simp add: fallback_condition_def startsWith_def sample_call_def optionsKeys_eq
        help_or_version_def includes_key_def termost_keys_def)
  note t1 = failure_paths_exit_1 [THEN conjunct1, rule_format]
  from t1 [where argv = ?argv1 and call = "sample_call Build [''verbose''] None"
      and E = sample_env, OF a]
  have a': "snd (fst (main sample_env ?argv1 (Some (sample_call Build [''verbose''] None)))) = Exited 1"
    by auto
  have b: "\<not> fallback_condition (drop 2 ?argv2)
         \<and> set (map fst (options ?call2)) \<subseteq> set optionsKeys
         \<and> selected ?call2 = StartKeycloak
         \<and> keycloakVersion (ctx ?call2) = Some (VersionString ''x'')
         \<and> env_import sample_env ''./start-keycloak'' = None"
    by (simp add: fallback_condition_def startsWith_def sample_call_def sample_context_def
        optionsKeys_eq sample_env_def)
  note t2 = failure_paths_exit_1 [THEN conjunct2, THEN conjunct1, rule_format]
  from t2 [where argv = ?argv2 and call = ?call2 and v = "VersionString ''x''"
      and E = sample_env, OF b]
  have b': "main sample_env ?argv2 (Some ?call2) =
       (([Import ''./start-keycloak'', SemVerParse ''x'',
          ConsoleLog (Red
            ''Invalid Keycloak version: x It should be a valid semver version example: 26.0.4'')],
         Exited 1), optionsKeys)"
    by (simp add: template_def)
  have c0: "handler ?boom Build (sample_context None) =
       ([Import ''./keycloakify'', GetBuildContext None,
         Command ''./keycloakify'' ''.'' NoCliCommandOptions], Threw (ErrorObject ''boom''))"
    by (simp add: plain_handler_def import_module_def getBuildContext_def command_def
        and_then_simps sample_env_def sample_context_def)
  then have c: "\<not> fallback_condition (drop 2 ?argv3)
         \<and> set (map fst (options (sample_call Build [] None))) \<subseteq> set optionsKeys
         \<and> handler ?boom (selected (sample_call Build [] None)) (ctx (sample_call Build [] None)) =
             ([Import ''./keycloakify'', GetBuildContext None,
               Command ''./keycloakify'' ''.'' NoCliCommandOptions], Threw (ErrorObject ''boom''))"
    by (simp add: fallback_condition_def startsWith_def sample_call_def)
  note t3 = failure_paths_exit_1 [THEN conjunct2, THEN conjunct2, THEN conjunct1, rule_format]
  from t3 [where argv = ?argv3 and call = "sample_call Build [] None" and E = ?boom, OF c]
  have c': "main ?boom ?argv3 (Some (sample_call Build [] None)) =
       (([Import ''./keycloakify'', GetBuildContext None,
          Command ''./keycloakify'' ''.'' NoCliCommandOptions,
          ConsoleError (ErrorValue (ErrorObject ''boom''))], Exited 1), optionsKeys)"
    by (simp add: sample_env_def)
  have "handler ?text Build (sample_context None) =
       ([Import ''./keycloakify'', GetBuildContext None,
         Command ''./keycloakify'' ''.'' NoCliCommandOptions], Threw (StringValue ''boom''))"
    by (simp add: plain_handler_def import_module_def getBuildContext_def command_def
        and_then_simps sample_env_def sample_context_def)
  then have e: "\<not> fallback_condition (drop 2 ?argv3)
         \<and> set (map fst (options (sample_call Build [] None))) \<subseteq> set optionsKeys
         \<and> handler ?text (selected (sample_call Build [] None)) (ctx (sample_call Build [] None)) =
             ([Import ''./keycloakify'', GetBuildContext None,
               Command ''./keycloakify'' ''.'' NoCliCommandOptions], Threw (StringValue ''boom''))"
    by (simp add: fallback_condition_def startsWith_def sample_call_def)
  from t3 [where argv = ?argv3 and call = "sample_call Build [] None" and E = ?text, OF e]
  have e': "main ?text ?argv3 (Some (sample_call Build [] None)) =
       (([Import ''./keycloakify'', GetBuildContext None,
          Command ''./keycloakify'' ''.'' NoCliCommandOptions], Exited 1), optionsKeys)"
    by (simp add: sample_env_def)
  have d: "fallback_condition (drop 2 [''node'', ''keycloakify''])
         \<and> env_spawnSync ?nostatus ''npx'' (''keycloakify'' # ''build'' # drop 2 [''node'', ''keycloakify''])
              Inherit = None"
    by (simp add: fallback_condition_def)
  note t4 = failure_paths_exit_1
    [THEN conjunct2, THEN conjunct2, THEN conjunct2, THEN conjunct1, rule_format]
  from t4 [where argv = "[''node'', ''keycloakify'']" and E = ?nostatus and sel = None, OF d]
  have d': "main ?nostatus [''node'', ''keycloakify''] None =
       (([SpawnSync ''npx'' [''keycloakify'', ''build''] Inherit], Exited 1), optionsKeys)"
    by simp
  from a a' b' c0 c' e' d' show ?thesis by simp
qed

text \<open>
  The claim as it was stated fails in two places. A handler that rejects with a value
  that is no \<open>Error\<close> (here a string) ends the process with code 1, but \<open>onException\<close> is
  not called and nothing is logged. And a run whose options bag holds an unregistered key
  beside \<open>help\<close> reports no unrecognized option and does not exit with code 1.
\<close>

theorem failure_paths_exit_1_counterexample:
  "handler (sample_env\<lparr>env_command := \<lambda>m bc opts. Threw (StringValue ''boom'')\<rparr>)
        Build (sample_context None) =
       ([Import ''./keycloakify'', GetBuildContext None,
         Command ''./keycloakify'' ''.'' NoCliCommandOptions], Threw (StringValue ''boom''))
   \<and> main (sample_env\<lparr>env_command := \<lambda>m bc opts. Threw (StringValue ''boom'')\<rparr>)
        [''node'', ''keycloakify'', ''build''] (Some (sample_call Build [] None)) =
       (([Import ''./keycloakify'', GetBuildContext None,
          Command ''./keycloakify'' ''.'' NoCliCommandOptions], Exited 1), optionsKeys)
   \<and> ConsoleError (ErrorValue (StringValue ''boom'')) \<notin>
        set (fst (fst (main (sample_env\<lparr>env_command := \<lambda>m bc opts. Threw (StringValue ''boom'')\<rparr>)
          [''node'', ''keycloakify'', ''build''] (Some (sample_call Build [] None)))))
   \<and> ''verbose'' \<in> set (map fst (options (sample_call Build [''verbose'', ''help''] None)))
   \<and> ''verbose'' \<notin> set optionsKeys
   \<and> main sample_env [''node'', ''keycloakify'', ''build'', ''--verbose'', ''--help'']
        (Some (sample_call Build [''verbose'', ''help''] None)) =
       (([], Returned ()), optionsKeys)"
proof -
  let ?text = "sample_env\<lparr>env_command := \<lambda>m bc opts. Threw (StringValue ''boom'')\<rparr>"
  have h: "handler ?text Build (sample_context None) =
       ([Import ''./keycloakify'', GetBuildContext None,
         Command ''./keycloakify'' ''.'' NoCliCommandOptions], Threw (StringValue ''boom''))"
    by (simp add: plain_handler_def import_module_def getBuildContext_def command_def
        and_then_simps sample_env_def sample_context_def)
  have "skip optionsKeys (options (sample_call Build [] None)) =
      (([] :: (nat, thrown_value, string) event list, Returned False), optionsKeys)"
    by (simp add: skip_def sample_call_def)
  with h have "run_task ?text optionsKeys (sample_call Build [] None) =
      (([Import ''./keycloakify'', GetBuildContext None,
         Command ''./keycloakify'' ''.'' NoCliCommandOptions], Threw (StringValue ''boom'')),
       optionsKeys)"
    by (simp add: run_task_def sample_call_def)
  then have "dispatch ?text optionsKeys (sample_call Build [] None) =
      (([Import ''./keycloakify'', GetBuildContext None,
         Command ''./keycloakify'' ''.'' NoCliCommandOptions], Exited 1), optionsKeys)"
    by (simp add: dispatch_def sample_env_def)
  then have m: "main ?text [''node'', ''keycloakify'', ''build''] (Some (sample_call Build [] None)) =
       (([Import ''./keycloakify'', GetBuildContext None,
          Command ''./keycloakify'' ''.'' NoCliCommandOptions], Exited 1), optionsKeys)"
    by (simp add: main_def fallback_condition_def startsWith_def help_or_version_def
        sample_call_def)
  have v: "''verbose'' \<in> set (map fst (options (sample_call Build [''verbose'', ''help''] None)))
     \<and> ''verbose'' \<notin> set optionsKeys"
    by (simp add: sample_call_def optionsKeys_eq)
  have g: "main sample_env [''node'', ''keycloakify'', ''build'', ''--verbose'', ''--help'']
        (Some (sample_call Build [''verbose'', ''help''] None)) =
       (([], Returned ()), optionsKeys)"
    by (simp add: main_def fallback_condition_def startsWith_def help_or_version_def
        includes_key_def termost_keys_def sample_call_def)
  from h m v g show ?thesis by simp
qed

end
